theory Spec2Isabelle
  imports Main "HOL-Library.AList"
begin

section \<open>JavaScript values\<close>

text \<open>
  The server is untyped JavaScript: tool arguments, query parameters and parsed JSON
  configuration are arbitrary values, and the code tests them by truthiness. A number is
  kept as the text \<open>String(n)\<close> gives for it, which is all the code ever observes of a
  number (its truthiness and its rendering inside a template string).
\<close>

datatype jsval =
    JUndefined
  | JNull
  | JBool bool
  | JNum string
  | JStr string
  | JArr "jsval list"
  | JObj "(string \<times> jsval) list"

fun truthy :: "jsval \<Rightarrow> bool" where
  "truthy JUndefined = False"
| "truthy JNull = False"
| "truthy (JBool b) = b"
| "truthy (JNum r) = (r \<noteq> ''0'' \<and> r \<noteq> ''NaN'')"
| "truthy (JStr s) = (s \<noteq> [])"
| "truthy (JArr xs) = True"
| "truthy (JObj kvs) = True"

text \<open>
  \<open>getProp v k\<close> is the property read \<open>v.k\<close> for the names the code reads (\<open>query\<close>,
  \<open>searchIndices\<close>, \<open>fileOnly\<close>, \<open>MCP_KEY\<close>, \<open>AXYS_API_HOST\<close>, \<open>config\<close>): none of them is
  defined by a prototype, so only an own property of an object yields a value.
  \<open>optProp\<close> is the optional chain \<open>v?.k\<close>.
\<close>

fun getProp :: "jsval \<Rightarrow> string \<Rightarrow> jsval" where
  "getProp (JObj kvs) k = (case map_of kvs k of Some v \<Rightarrow> v | None \<Rightarrow> JUndefined)"
| "getProp v k = JUndefined"

definition optProp :: "jsval \<Rightarrow> string \<Rightarrow> jsval" where
  "optProp v k = (if v = JUndefined \<or> v = JNull then JUndefined else getProp v k)"

fun join_with :: "string \<Rightarrow> string list \<Rightarrow> string" where
  "join_with sep [] = []"
| "join_with sep [x] = x"
| "join_with sep (x # y # ys) = x @ sep @ join_with sep (y # ys)"

text \<open>
  \<open>String(v)\<close>, as a template string applies it; \<open>None\<close> is the \<open>TypeError\<close> of an
  object that cannot be converted to a primitive. A parsed JSON value holds no function,
  so an object with an own \<open>toString\<close> property has no callable conversion left
  (the inherited \<open>valueOf\<close> returns the object itself); every other object renders
  through \<open>Object.prototype.toString\<close>, and an array joins its elements.
\<close>

fun js_to_string :: "jsval \<Rightarrow> string option" where
  "js_to_string JUndefined = Some ''undefined''"
| "js_to_string JNull = Some ''null''"
| "js_to_string (JBool b) = Some (if b then ''true'' else ''false'')"
| "js_to_string (JNum r) = Some r"
| "js_to_string (JStr s) = Some s"
| "js_to_string (JArr xs) =
     (if \<forall>x \<in> set xs. js_to_string x \<noteq> None
      then Some (join_with '',''
                   (map (\<lambda>x. if x = JUndefined \<or> x = JNull then [] else the (js_to_string x)) xs))
      else None)"
| "js_to_string (JObj kvs) =
     (if map_of kvs ''toString'' = None then Some ''[object Object]'' else None)"

section \<open>The upstream client\<close>

record GptApiConfig =
  host :: jsval
  mcpKey :: jsval

record GptSearchRequest =
  query :: jsval
  searchType :: string
  searchIndices :: "jsval option"
  fileOnly :: "jsval option"

text \<open>
  The network is a parameter: \<open>net cfg req\<close> is what the POST of \<open>req\<close> by the client
  built from \<open>cfg\<close> yields, either the response data or the message of the \<open>Error\<close> that
  the response interceptor \<open>handleError\<close> throws. Every function that can reach the
  network returns the list of requests it sent beside its result.
\<close>

type_synonym upstream = "GptApiConfig \<Rightarrow> GptSearchRequest \<Rightarrow> string + jsval"
type_synonym call = "GptApiConfig \<times> GptSearchRequest"

definition aiSearch :: "upstream \<Rightarrow> GptApiConfig \<Rightarrow> GptSearchRequest \<Rightarrow> call list \<times> (string + jsval)" where
  "aiSearch net cfg req = ([(cfg, req)], net cfg req)"

definition validateConnection :: "upstream \<Rightarrow> GptApiConfig \<Rightarrow> call list \<times> bool" where
  "validateConnection net cfg =
     (case aiSearch net cfg
             \<lparr>query = JStr ''test'', searchType = ''structured'',
              searchIndices = None, fileOnly = None\<rparr> of
        (calls, Inr r) \<Rightarrow> (calls, True)
      | (calls, Inl m) \<Rightarrow> (calls, False))"

section \<open>Tool dispatch\<close>

datatype ErrorCode = InvalidParams | MethodNotFound | InternalError

text \<open>What a handler can throw: an \<open>McpError\<close> (code and message) or a plain \<open>Error\<close>.\<close>

datatype thrown = McpError ErrorCode string | Error string

text \<open>
  The text of the single content item of a tool result: a literal, or
  \<open>JSON.stringify(result, null, 2)\<close> of an upstream response.
\<close>

datatype content = Text string | JsonText jsval

definition check_mark :: string where
  "check_mark = [CHR 0xE2, CHR 0x9C, CHR 0x93]"

definition cross_mark :: string where
  "cross_mark = [CHR 0xE2, CHR 0x9C, CHR 0x97]"

definition not_initialized_text :: string where
  "not_initialized_text = ''Error: MCP client not initialized. Please check MCP_KEY configuration.''"

definition validate_not_initialized_text :: string where
  "validate_not_initialized_text =
     cross_mark @ '' MCP client not initialized. Please check MCP_KEY configuration.''"

definition validate_ok_text :: string where
  "validate_ok_text = check_mark @ '' Connection to MCP API is valid and working''"

definition validate_failed_text :: string where
  "validate_failed_text =
     cross_mark @ '' Failed to connect to MCP API. Please check your configuration.''"

text \<open>
  \<open>await mcpClient.aiSearch(searchRequest)\<close> followed by the return of the serialized
  result. Calling the method on a null client is the \<open>TypeError\<close> JavaScript raises.
\<close>

definition searchVia ::
  "upstream \<Rightarrow> GptApiConfig option \<Rightarrow> GptSearchRequest \<Rightarrow> call list \<times> (thrown + content)" where
  "searchVia net mcpClient req =
     (case mcpClient of
        None \<Rightarrow> ([], Inl (Error ''Cannot read properties of null (reading 'aiSearch')''))
      | Some c \<Rightarrow>
          (case aiSearch net c req of
             (calls, Inl m) \<Rightarrow> (calls, Inl (Error m))
           | (calls, Inr r) \<Rightarrow> (calls, Inr (JsonText r))))"

text \<open>The request object the \<open>ai_search_unstructured\<close> case builds.\<close>

definition unstructuredRequest :: "jsval \<Rightarrow> GptSearchRequest" where
  "unstructuredRequest args =
     (let r0 = \<lparr>query = optProp args ''query'', searchType = ''unstructured'',
                searchIndices = None, fileOnly = None\<rparr>;
          r1 = (if truthy (optProp args ''searchIndices'')
                then r0\<lparr>searchIndices := Some (getProp args ''searchIndices'')\<rparr> else r0);
          r2 = (if optProp args ''fileOnly'' \<noteq> JUndefined
                then r1\<lparr>fileOnly := Some (getProp args ''fileOnly'')\<rparr> else r1)
      in r2)"

text \<open>The \<open>switch (name)\<close> inside the \<open>try\<close> of the call-tool handler.\<close>

definition toolSwitch ::
  "upstream \<Rightarrow> GptApiConfig option \<Rightarrow> string \<Rightarrow> jsval \<Rightarrow> call list \<times> (thrown + content)" where
  "toolSwitch net mcpClient name args =
     (if name = ''ai_search_structured'' then
        (if \<not> truthy (optProp args ''query'')
         then ([], Inl (McpError InvalidParams ''query is required''))
         else searchVia net mcpClient
                \<lparr>query = optProp args ''query'', searchType = ''structured'',
                 searchIndices = None, fileOnly = None\<rparr>)
      else if name = ''ai_search_unstructured'' then
        (if \<not> truthy (optProp args ''query'')
         then ([], Inl (McpError InvalidParams ''query is required''))
         else searchVia net mcpClient (unstructuredRequest args))
      else if name = ''validate_connection'' then
        (case mcpClient of
           None \<Rightarrow> ([], Inr (Text validate_not_initialized_text))
         | Some c \<Rightarrow>
             (case validateConnection net c of
                (calls, isValid) \<Rightarrow>
                  (calls, Inr (Text (if isValid then validate_ok_text else validate_failed_text)))))
      else ([], Inl (McpError MethodNotFound (''Unknown tool: '' @ name))))"

text \<open>The \<open>catch (error)\<close> of the handler.\<close>

definition catchBlock :: "string \<Rightarrow> thrown \<Rightarrow> thrown" where
  "catchBlock name e =
     (case e of
        McpError c m \<Rightarrow> McpError c m
      | Error m \<Rightarrow> McpError InternalError (''Error executing '' @ name @ '': '' @ m))"

text \<open>
  The handler registered for \<open>CallToolRequestSchema\<close> by \<open>createMcpServer\<close>; \<open>mcpClient\<close> is
  the client the server instance was bound to, \<open>None\<close> for \<open>null\<close>.
\<close>

definition callTool ::
  "upstream \<Rightarrow> GptApiConfig option \<Rightarrow> string \<Rightarrow> jsval \<Rightarrow> call list \<times> (thrown + content)" where
  "callTool net mcpClient name args =
     (if mcpClient = None \<and> name \<noteq> ''validate_connection''
      then ([], Inr (Text not_initialized_text))
      else (case toolSwitch net mcpClient name args of
              (calls, Inl e) \<Rightarrow> (calls, Inl (catchBlock name e))
            | (calls, Inr r) \<Rightarrow> (calls, Inr r)))"

section \<open>The handlers registered with schemas\<close>

text \<open>
  \<open>src/index.ts\<close> registers each tool with a zod input schema and a handler; its client is
  always built. The SDK validates the arguments against the schema and hands the parsed
  values to the handler, so the values are parameters here. The schema of
  \<open>ai_search_unstructured\<close> declares \<open>fileOnly\<close> as \<open>z.boolean().default(false)\<close>: for a call
  that omits the field the handler receives \<open>false\<close>. Both handlers catch every error of
  the search and return its message as text.
\<close>

definition ai_search_structured_zod ::
  "upstream \<Rightarrow> GptApiConfig \<Rightarrow> jsval \<Rightarrow> call list \<times> content" where
  "ai_search_structured_zod net mcpClient q =
     (case aiSearch net mcpClient
             \<lparr>query = q, searchType = ''structured'', searchIndices = None, fileOnly = None\<rparr> of
        (calls, Inl m) \<Rightarrow> (calls, Text (''Error executing ai_search_structured: '' @ m))
      | (calls, Inr r) \<Rightarrow> (calls, JsonText r))"

definition ai_search_unstructured_zod ::
  "upstream \<Rightarrow> GptApiConfig \<Rightarrow> jsval \<Rightarrow> jsval \<Rightarrow> jsval \<Rightarrow> call list \<times> content" where
  "ai_search_unstructured_zod net mcpClient q si fo =
     (let r0 = \<lparr>query = q, searchType = ''unstructured'', searchIndices = None, fileOnly = None\<rparr>;
          r1 = (if truthy si then r0\<lparr>searchIndices := Some si\<rparr> else r0);
          r2 = (if fo \<noteq> JUndefined then r1\<lparr>fileOnly := Some fo\<rparr> else r1)
      in case aiSearch net mcpClient r2 of
           (calls, Inl m) \<Rightarrow> (calls, Text (''Error executing ai_search_unstructured: '' @ m))
         | (calls, Inr r) \<Rightarrow> (calls, JsonText r))"

section \<open>Upstream configuration\<close>

definition DEFAULT_API_HOST :: string where
  "DEFAULT_API_HOST = ''https://directory.axys.ai''"

definition startsWith :: "string \<Rightarrow> string \<Rightarrow> bool" where
  "startsWith s p = (take (length p) s = p)"

text \<open>
  The WHATWG URL parser is a parameter: \<open>parses v\<close> tells whether \<open>new URL(v)\<close> returns
  (\<open>True\<close>) or throws. Only a string has a \<open>startsWith\<close> method; on any other value the
  call is a \<open>TypeError\<close>, which the \<open>catch\<close> of \<open>isValidUrl\<close> turns into \<open>false\<close>.
\<close>

type_synonym url_parser = "jsval \<Rightarrow> bool"

definition isValidUrl :: "url_parser \<Rightarrow> jsval \<Rightarrow> bool" where
  "isValidUrl parses url =
     (if \<not> truthy url then False
      else if \<not> parses url then False
      else (case url of
              JStr s \<Rightarrow> startsWith s ''http://'' \<or> startsWith s ''https://''
            | _ \<Rightarrow> False))"

text \<open>
  A \<open>StreamableHTTPServerTransport\<close> object as the server sees it: its \<open>sessionId\<close> field
  (undefined until the SDK initialises the session) and the client captured by the server
  instance that \<open>createMcpServer\<close> connected to it.
\<close>

record transportObj =
  sessionId :: "string option"
  boundClient :: "GptApiConfig option"

text \<open>
  The mutable state of the process: the client cache \<open>mcpClients\<close> (a \<open>Map\<close>),
  \<open>defaultMcpClient\<close>, the own properties of the session table \<open>transports\<close> in insertion
  order, and every transport object constructed so far (its index is its identity).
\<close>

record server =
  mcpClients :: "(string \<times> GptApiConfig) list"
  defaultMcpClient :: "GptApiConfig option"
  transports :: "(string \<times> nat) list"
  objects :: "transportObj list"

text \<open>
  \<open>getMcpClient\<close>; the outer \<open>None\<close> is the \<open>TypeError\<close> of the template string that
  builds \<open>configKey\<close> from a key that has no string conversion.
\<close>

definition getMcpClient ::
  "url_parser \<Rightarrow> jsval \<Rightarrow> server \<Rightarrow> (GptApiConfig option \<times> server) option" where
  "getMcpClient parses config s =
     (if truthy config \<and> truthy (getProp config ''MCP_KEY'') then
        (let apiHost = (if isValidUrl parses (getProp config ''AXYS_API_HOST'')
                        then getProp config ''AXYS_API_HOST'' else JStr DEFAULT_API_HOST)
         in case (js_to_string apiHost, js_to_string (getProp config ''MCP_KEY'')) of
              (Some h, Some k) \<Rightarrow>
                (let configKey = h @ '':'' @ k;
                     s' = (if map_of (mcpClients s) configKey = None
                           then s\<lparr>mcpClients :=
                                    AList.update configKey
                                      \<lparr>host = apiHost, mcpKey = getProp config ''MCP_KEY''\<rparr>
                                      (mcpClients s)\<rparr>
                           else s)
                 in Some (map_of (mcpClients s') configKey, s'))
            | _ \<Rightarrow> None)
      else Some (defaultMcpClient s, s))"

text \<open>
  \<open>parseConfigFromQuery\<close> on \<open>req.query\<close>. \<open>decode\<close> stands for
  \<open>JSON.parse(decodeURIComponent(configParam))\<close>, \<open>None\<close> when either throws. Both methods
  log \<open>config.AXYS_API_HOST\<close> through a template string. In the first method no \<open>try\<close>
  encloses the log line, so a host with no string conversion makes the function throw:
  the result \<open>None\<close>. In the second method the line stands inside the \<open>try\<close>: a parsed
  \<open>null\<close>, or a host with no string conversion, raises there and the function returns
  \<open>undefined\<close>.
\<close>

definition parseConfigFromQuery :: "(string \<Rightarrow> jsval option) \<Rightarrow> jsval \<Rightarrow> jsval option" where
  "parseConfigFromQuery decode q =
     (if truthy (getProp q ''MCP_KEY'') \<or> truthy (getProp q ''AXYS_API_HOST'') then
        (if js_to_string (getProp q ''AXYS_API_HOST'') = None then None
         else Some (JObj [(''AXYS_API_HOST'', getProp q ''AXYS_API_HOST''),
                          (''MCP_KEY'', getProp q ''MCP_KEY'')]))
      else (case getProp q ''config'' of
              JStr c \<Rightarrow>
                (if c = [] then Some JUndefined
                 else (case decode c of
                         None \<Rightarrow> Some JUndefined
                       | Some config \<Rightarrow>
                           if config = JNull \<or> config = JUndefined
                              \<or> js_to_string (getProp config ''AXYS_API_HOST'') = None
                           then Some JUndefined else Some config))
            | _ \<Rightarrow> Some JUndefined))"

text \<open>The environment variables the entry points read.\<close>

record environment =
  AXYS_API_HOST :: "string option"
  MCP_KEY :: "string option"

definition envValue :: "string option \<Rightarrow> jsval" where
  "envValue v = (case v of None \<Rightarrow> JUndefined | Some x \<Rightarrow> JStr x)"

text \<open>
  The state \<open>startHttpServer\<close> leaves before the first request: the default client is
  built only when \<open>MCP_KEY\<close> is set to a non-empty string.
\<close>

definition startHttpServer :: "url_parser \<Rightarrow> environment \<Rightarrow> server" where
  "startHttpServer parses env =
     (let envApiHost = envValue (AXYS_API_HOST env);
          API_HOST = (if isValidUrl parses envApiHost then envApiHost else JStr DEFAULT_API_HOST);
          KEY = (if truthy (envValue (MCP_KEY env)) then envValue (MCP_KEY env) else JStr [])
      in \<lparr>mcpClients = [],
          defaultMcpClient = (if truthy KEY then Some \<lparr>host = API_HOST, mcpKey = KEY\<rparr> else None),
          transports = [],
          objects = []\<rparr>)"

text \<open>
  \<open>startStdioServer\<close> up to the creation of the server: \<open>Inl 1\<close> is \<open>process.exit(1)\<close>,
  otherwise the default client it builds.
\<close>

definition startStdioServer :: "url_parser \<Rightarrow> environment \<Rightarrow> nat + GptApiConfig" where
  "startStdioServer parses env =
     (let envApiHost = envValue (AXYS_API_HOST env);
          API_HOST = (if isValidUrl parses envApiHost then envApiHost else JStr DEFAULT_API_HOST);
          KEY = envValue (MCP_KEY env)
      in if \<not> truthy KEY then Inl 1 else Inr \<lparr>host = API_HOST, mcpKey = KEY\<rparr>)"

section \<open>The session table\<close>

text \<open>
  \<open>transports\<close> is an object literal, so a read \<open>transports[k]\<close> that finds no own
  property continues to \<open>Object.prototype\<close>, where these names are defined, each with a
  truthy value that has no \<open>handleRequest\<close> method.
\<close>

definition Object_prototype_names :: "string list" where
  "Object_prototype_names =
     [''constructor'', ''__proto__'', ''hasOwnProperty'', ''isPrototypeOf'',
      ''propertyIsEnumerable'', ''toLocaleString'', ''toString'', ''valueOf'',
      ''__defineGetter__'', ''__defineSetter__'', ''__lookupGetter__'', ''__lookupSetter__'']"

datatype lookup = Own nat | Inherited | Missing

definition tableGet :: "(string \<times> nat) list \<Rightarrow> string \<Rightarrow> lookup" where
  "tableGet tbl k =
     (case map_of tbl k of
        Some t \<Rightarrow> Own t
      | None \<Rightarrow> if k \<in> set Object_prototype_names then Inherited else Missing)"

text \<open>
  The header \<open>mcp-session-id\<close> is a string or undefined; \<open>present\<close> is its truthiness and
  \<open>tableLookup\<close> the read \<open>transports[sessionId]\<close>, which the code evaluates only for a
  truthy header.
\<close>

definition present :: "string option \<Rightarrow> bool" where
  "present h = (case h of None \<Rightarrow> False | Some v \<Rightarrow> v \<noteq> [])"

definition tableLookup :: "(string \<times> nat) list \<Rightarrow> string option \<Rightarrow> lookup" where
  "tableLookup tbl h = (case h of None \<Rightarrow> Missing | Some k \<Rightarrow> tableGet tbl k)"

definition sessionIdOf :: "server \<Rightarrow> nat \<Rightarrow> string option" where
  "sessionIdOf s t = (if t < length (objects s) then sessionId (objects s ! t) else None)"

text \<open>The callback \<open>onsessioninitialized\<close> of transport \<open>t\<close>: \<open>transports[newSessionId] = transport\<close>.\<close>

definition onsessioninitialized :: "nat \<Rightarrow> string \<Rightarrow> server \<Rightarrow> server" where
  "onsessioninitialized t newSessionId s =
     s\<lparr>transports := AList.update newSessionId t (transports s)\<rparr>"

text \<open>The callback \<open>transport.onclose\<close> of transport \<open>t\<close>.\<close>

definition onclose :: "nat \<Rightarrow> server \<Rightarrow> server" where
  "onclose t s =
     (case sessionIdOf s t of
        None \<Rightarrow> s
      | Some sid \<Rightarrow>
          if sid \<noteq> [] \<and> tableGet (transports s) sid \<noteq> Missing
          then s\<lparr>transports := AList.delete sid (transports s)\<rparr>
          else s)"

text \<open>
  The SDK transport is a parameter. What \<open>transport.handleRequest\<close> does to the server is
  the sequence of calls it makes back into it, and how it ends:
  \<^item> \<open>Initialize u\<close>: the transport calls \<open>sessionIdGenerator\<close>, where \<open>randomUUID()\<close> returns
    \<open>u\<close> (a string of 36 characters), stores \<open>u\<close> in its \<open>sessionId\<close> and calls
    \<open>onsessioninitialized(u)\<close>;
  \<^item> \<open>Close\<close>: the transport runs its close sequence and calls \<open>onclose\<close>;
  \<^item> \<open>Returns\<close>, or \<open>Throws sent\<close> with \<open>sent\<close> the value of \<open>res.headersSent\<close>.
\<close>

datatype sdk_call = Initialize string | Close

datatype sdk_end = Returns | Throws bool

type_synonym sdk_run = "sdk_call list \<times> sdk_end"

definition setSessionId :: "nat \<Rightarrow> string \<Rightarrow> server \<Rightarrow> server" where
  "setSessionId t u s =
     s\<lparr>objects := (objects s)[t := (objects s ! t)\<lparr>sessionId := Some u\<rparr>]\<rparr>"

fun sdkCallback :: "nat \<Rightarrow> sdk_call \<Rightarrow> server \<Rightarrow> server" where
  "sdkCallback t (Initialize u) s = onsessioninitialized t u (setSessionId t u s)"
| "sdkCallback t Close s = onclose t s"

definition handleRequest :: "nat \<Rightarrow> sdk_run \<Rightarrow> server \<Rightarrow> sdk_end \<times> server" where
  "handleRequest t run s = (snd run, foldl (\<lambda>s' c. sdkCallback t c s') s (fst run))"

section \<open>The HTTP handlers\<close>

text \<open>
  What the caller gets: a JSON-RPC error envelope with its status, code and message; a
  plain-text body with its status; whatever the transport \<open>t\<close> wrote; or nothing from the
  handler, whose promise is rejected by an error that nothing catches.
\<close>

datatype response =
    JsonRpcError nat int string
  | PlainText nat string
  | ByTransport nat
  | Rejected

definition internalError :: response where
  "internalError = JsonRpcError 500 (- 32603) ''Internal server error''"

definition badRequest :: response where
  "badRequest = JsonRpcError 400 (- 32000) ''Bad Request: No valid session ID provided''"

text \<open>
  The end of the \<open>try\<close> of the POST handler: \<open>await transport.handleRequest(...)\<close>, and the
  \<open>catch\<close> that answers 500 unless the headers are already sent.
\<close>

definition routePost :: "nat \<Rightarrow> sdk_run \<Rightarrow> server \<Rightarrow> response \<times> server" where
  "routePost t run s =
     (case handleRequest t run s of
        (Returns, s') \<Rightarrow> (ByTransport t, s')
      | (Throws sent, s') \<Rightarrow> (if sent then ByTransport t else internalError, s'))"

text \<open>
  \<open>app.post('/mcp')\<close>. \<open>isInit\<close> is \<open>isInitializeRequest(req.body)\<close>, \<open>connects\<close> tells whether
  \<open>server.connect(transport)\<close> resolves, \<open>run\<close> is what the transport does with the request.
  The configuration is parsed before the \<open>try\<close>, so an error raised there rejects the
  handler's promise. In the second branch the new transport object is the next of
  \<open>objects\<close>; it carries the client that \<open>createMcpServer(config)\<close> obtained from
  \<open>getMcpClient\<close>, and an error raised there is answered by the \<open>catch\<close>.
\<close>

definition postMcp ::
  "url_parser \<Rightarrow> (string \<Rightarrow> jsval option) \<Rightarrow> string option \<Rightarrow> bool \<Rightarrow> jsval \<Rightarrow> bool \<Rightarrow> sdk_run
     \<Rightarrow> server \<Rightarrow> response \<times> server" where
  "postMcp parses decode hdr isInit q connects run s =
     (case parseConfigFromQuery decode q of
        None \<Rightarrow> (Rejected, s)
      | Some config \<Rightarrow>
          if present hdr \<and> tableLookup (transports s) hdr \<noteq> Missing then
            (case tableLookup (transports s) hdr of
               Own t \<Rightarrow> routePost t run s
             | _ \<Rightarrow> (internalError, s))
          else if \<not> present hdr \<and> isInit then
            (let t = length (objects s)
             in case getMcpClient parses config s of
                  None \<Rightarrow>
                    (internalError,
                     s\<lparr>objects := objects s @ [\<lparr>sessionId = None, boundClient = None\<rparr>]\<rparr>)
                | Some (mcpClient, s2) \<Rightarrow>
                    (let s3 = s2\<lparr>objects :=
                                   objects s2 @ [\<lparr>sessionId = None, boundClient = mcpClient\<rparr>]\<rparr>
                     in if connects then routePost t run s3 else (internalError, s3)))
          else (badRequest, s))"

text \<open>
  \<open>app.get('/mcp')\<close> and \<open>app.delete('/mcp')\<close> have the same body and no \<open>try\<close>: an error
  raised while routing rejects the handler's promise.
\<close>

definition routeBare :: "string option \<Rightarrow> sdk_run \<Rightarrow> server \<Rightarrow> response \<times> server" where
  "routeBare hdr run s =
     (if \<not> present hdr \<or> tableLookup (transports s) hdr = Missing
      then (PlainText 400 ''Invalid or missing session ID'', s)
      else (case tableLookup (transports s) hdr of
              Own t \<Rightarrow>
                (case handleRequest t run s of
                   (Returns, s') \<Rightarrow> (ByTransport t, s')
                 | (Throws sent, s') \<Rightarrow> (Rejected, s'))
            | _ \<Rightarrow> (Rejected, s)))"

definition getMcp :: "string option \<Rightarrow> sdk_run \<Rightarrow> server \<Rightarrow> response \<times> server" where
  "getMcp hdr run s = routeBare hdr run s"

definition deleteMcp :: "string option \<Rightarrow> sdk_run \<Rightarrow> server \<Rightarrow> response \<times> server" where
  "deleteMcp hdr run s = routeBare hdr run s"

datatype event =
    Post "string option" bool jsval bool sdk_run
  | Get "string option" sdk_run
  | Delete "string option" sdk_run

fun step :: "url_parser \<Rightarrow> (string \<Rightarrow> jsval option) \<Rightarrow> event \<Rightarrow> server \<Rightarrow> response \<times> server" where
  "step parses decode (Post hdr isInit q connects run) s = postMcp parses decode hdr isInit q connects run s"
| "step parses decode (Get hdr run) s = getMcp hdr run s"
| "step parses decode (Delete hdr run) s = deleteMcp hdr run s"

text \<open>The state after a sequence of requests, each handled to its end before the next.\<close>

fun serve :: "url_parser \<Rightarrow> (string \<Rightarrow> jsval option) \<Rightarrow> event list \<Rightarrow> server \<Rightarrow> server" where
  "serve parses decode [] s = s"
| "serve parses decode (e # es) s = serve parses decode es (snd (step parses decode e s))"

text \<open>The identifiers \<open>randomUUID()\<close> returned during a sequence of requests.\<close>

fun generatedBy :: "sdk_call \<Rightarrow> string list" where
  "generatedBy (Initialize u) = [u]"
| "generatedBy Close = []"



text \<open>
  A table is \<open>registered\<close> when every entry stands under the session identifier of its
  own transport, as \<open>onsessioninitialized\<close> writes it, and no key occurs twice.
\<close>

definition registered :: "server \<Rightarrow> bool" where
  "registered s =
     (distinct (map fst (transports s))
      \<and> (\<forall>(k, t) \<in> set (transports s). k \<noteq> [] \<and> sessionIdOf s t = Some k))"

text \<open>
  What the SDK transport does in fact: it initialises a session only while it handles
  the POST that created it, at most once, and under a non-empty identifier.
\<close>

definition identifiersOf :: "sdk_run \<Rightarrow> string list" where
  "identifiersOf run = concat (map generatedBy (fst run))"

fun sdkContract :: "event \<Rightarrow> bool" where
  "sdkContract (Post hdr isInit q connects run) =
     (if present hdr then identifiersOf run = []
      else length (identifiersOf run) \<le> 1 \<and> [] \<notin> set (identifiersOf run))"
| "sdkContract (Get hdr run) = (identifiersOf run = [])"
| "sdkContract (Delete hdr run) = (identifiersOf run = [])"

section \<open>Shutdown\<close>

text \<open>
  What \<open>transports[sessionId].close()\<close> does, a parameter as well: whether the transport
  calls \<open>onclose\<close>, and whether the call throws.
\<close>

datatype close_run = CloseRun (callsOnclose: bool) (throws: bool)

text \<open>
  The \<open>for ... in\<close> loop of the \<open>SIGINT\<close> handler over the keys the table had when the loop
  began; a key deleted before its turn is skipped. The result lists the keys whose
  failure was logged.
\<close>

fun shutdownLoop :: "(string \<Rightarrow> close_run) \<Rightarrow> string list \<Rightarrow> server \<Rightarrow> string list \<times> server" where
  "shutdownLoop closes [] s = ([], s)"
| "shutdownLoop closes (k # ks) s =
     (case map_of (transports s) k of
        None \<Rightarrow> shutdownLoop closes ks s
      | Some t \<Rightarrow>
          (let s1 = (if callsOnclose (closes k) then onclose t s else s)
           in if throws (closes k)
              then (case shutdownLoop closes ks s1 of (logged, s') \<Rightarrow> (k # logged, s'))
              else shutdownLoop closes ks (s1\<lparr>transports := AList.delete k (transports s1)\<rparr>)))"

text \<open>The \<open>SIGINT\<close> handler: the keys logged, the final state and the exit code.\<close>

definition sigint :: "(string \<Rightarrow> close_run) \<Rightarrow> server \<Rightarrow> string list \<times> server \<times> nat" where
  "sigint closes s =
     (case shutdownLoop closes (map fst (transports s)) s of
        (logged, s') \<Rightarrow> (logged, s', 0))"

section \<open>Example values\<close>

text \<open>
  Concrete inputs for the closed instances below: the URL parser on the strings that
  occur in them, a decoder for requests without a \<open>config\<close> parameter (it is never
  consulted), an empty environment, two identifiers of the shape \<open>randomUUID()\<close> returns,
  and the state after one session was initialised on a server started from the empty
  environment.
\<close>

abbreviation example_parser :: url_parser where
  "example_parser \<equiv>
     (\<lambda>v. v = JStr ''http://localhost:9000'' \<or> v = JStr ''http://localhost''
          \<or> v = JStr ''ftp://localhost:9000'' \<or> v = JStr ''https://tenant.example'')"

abbreviation no_decode :: "string \<Rightarrow> jsval option" where
  "no_decode \<equiv> (\<lambda>c. None)"

abbreviation bare_env :: environment where
  "bare_env \<equiv> \<lparr>AXYS_API_HOST = None, MCP_KEY = None\<rparr>"

abbreviation uuid_a :: string where
  "uuid_a \<equiv> ''3f2b8c1e-7a4d-4e9b-8c6f-1d2e3a4b5c6d''"

abbreviation uuid_b :: string where
  "uuid_b \<equiv> ''9a8b7c6d-5e4f-4a3b-9c2d-1e0f9a8b7c6d''"

abbreviation one_session :: server where
  "one_session \<equiv> \<lparr>mcpClients = [], defaultMcpClient = None, transports = [(uuid_a, 0)],
                    objects = [\<lparr>sessionId = Some uuid_a, boundClient = None\<rparr>]\<rparr>"

text \<open>The state after a first tenant, with host \<open>http://localhost:9000\<close> and key \<open>k\<close>, was served.\<close>

abbreviation one_tenant :: server where
  "one_tenant \<equiv>
     \<lparr>mcpClients = [(''http://localhost:9000:k'',
                      \<lparr>host = JStr ''http://localhost:9000'', mcpKey = JStr ''k''\<rparr>)],
      defaultMcpClient = None, transports = [], objects = []\<rparr>"

section \<open>Properties of tool dispatch\<close>

text \<open>
  Claim C4, as the code has it. A call of \<open>ai_search_structured\<close> or
  \<open>ai_search_unstructured\<close> whose \<open>query\<close> is missing or the empty string sends nothing
  upstream. On a server with a client bound it fails with the invalid-parameters error
  \<open>query is required\<close>; on a server with no client the guard in front of the \<open>switch\<close>
  answers first, with the text \<open>Error: MCP client not initialized ...\<close> and no error.
\<close>

theorem search_without_query:
  assumes "name = ''ai_search_structured'' \<or> name = ''ai_search_unstructured''"
      and "optProp args ''query'' = JUndefined \<or> optProp args ''query'' = JStr []"
  shows "callTool net mcpClient name args =
           ([], if mcpClient = None then Inr (Text not_initialized_text)
                else Inl (McpError InvalidParams ''query is required''))"
proof -
  have q: "\<not> truthy (optProp args ''query'')"
    using assms(2) by auto
  have n: "name \<noteq> ''validate_connection''"
    using assms(1) by auto
  show ?thesis
  proof (cases mcpClient)
    case None
    then show ?thesis using n by (simp add: callTool_def)
  next
    case (Some c)
    then show ?thesis using assms(1) q
      by (auto simp: callTool_def toolSwitch_def catchBlock_def)
  qed
qed

theorem search_without_query_witness:
  "callTool (\<lambda>c r. Inr JNull)
       (Some \<lparr>host = JStr ''https://directory.axys.ai'', mcpKey = JStr ''k''\<rparr>)
       ''ai_search_unstructured'' (JObj [(''query'', JStr [])])
     = ([], Inl (McpError InvalidParams ''query is required''))"
  using search_without_query [of "''ai_search_unstructured''" "JObj [(''query'', JStr [])]"
      "\<lambda>c r. Inr JNull" "Some \<lparr>host = JStr ''https://directory.axys.ai'', mcpKey = JStr ''k''\<rparr>"]
  by (simp add: optProp_def)

text \<open>
  The claim as it is written fails on a server without a client: the call with no
  \<open>query\<close> returns a text result instead of the invalid-parameters error.
\<close>

theorem search_without_query_counterexample:
  "snd (callTool (\<lambda>c r. Inr JNull) None ''ai_search_structured'' (JObj []))
     = Inr (Text not_initialized_text)
   \<and> snd (callTool (\<lambda>c r. Inr JNull) None ''ai_search_structured'' (JObj []))
     \<noteq> Inl (McpError InvalidParams ''query is required'')"
  by (simp add: callTool_def)

text \<open>
  Claim C5, as the code has it. In the call-tool handler of \<open>createMcpServer\<close>, a call of
  \<open>ai_search_unstructured\<close> with a truthy \<open>query\<close> on a server with a client sends exactly one
  request. \<open>fileOnly\<close> is in it if and only if the caller supplied it, with the value
  supplied (\<open>false\<close> included); \<open>searchIndices\<close> is in it if and only if the caller supplied
  a truthy value, so an empty string is left out. The handler of \<open>src/index.ts\<close> applies
  the same two tests to the values it receives; as its schema gives \<open>fileOnly\<close> the default
  \<open>false\<close>, there an omitted \<open>fileOnly\<close> goes upstream as \<open>false\<close>.
\<close>

theorem unstructured_forwarding:
  assumes "truthy (optProp args ''query'')"
  shows "fst (callTool net (Some c) ''ai_search_unstructured'' args) = [(c, unstructuredRequest args)]
       \<and> searchIndices (unstructuredRequest args) =
           (if truthy (optProp args ''searchIndices'') then Some (optProp args ''searchIndices'') else None)
       \<and> fileOnly (unstructuredRequest args) =
           (if optProp args ''fileOnly'' = JUndefined then None else Some (optProp args ''fileOnly''))
       \<and> fst (ai_search_unstructured_zod net c q si fo) =
           [(c, \<lparr>query = q, searchType = ''unstructured'',
                 searchIndices = (if truthy si then Some si else None),
                 fileOnly = (if fo = JUndefined then None else Some fo)\<rparr>)]"
proof -
  have a: "fst (callTool net (Some c) ''ai_search_unstructured'' args) = [(c, unstructuredRequest args)]"
    using assms
    by (simp add: callTool_def toolSwitch_def searchVia_def aiSearch_def split: sum.splits prod.splits)
  have b: "searchIndices (unstructuredRequest args) =
           (if truthy (optProp args ''searchIndices'') then Some (optProp args ''searchIndices'') else None)"
    by (auto simp: unstructuredRequest_def Let_def optProp_def)
  have c: "fileOnly (unstructuredRequest args) =
           (if optProp args ''fileOnly'' = JUndefined then None else Some (optProp args ''fileOnly''))"
    by (auto simp: unstructuredRequest_def Let_def optProp_def)
  have d: "fst (ai_search_unstructured_zod net c q si fo) =
           [(c, \<lparr>query = q, searchType = ''unstructured'',
                 searchIndices = (if truthy si then Some si else None),
                 fileOnly = (if fo = JUndefined then None else Some fo)\<rparr>)]"
    by (simp add: ai_search_unstructured_zod_def aiSearch_def Let_def split: sum.splits)
  show ?thesis using a b c d by simp
qed

theorem unstructured_forwarding_witness:
  "fst (callTool (\<lambda>c r. Inr JNull)
          (Some \<lparr>host = JStr ''https://directory.axys.ai'', mcpKey = JStr ''k''\<rparr>)
          ''ai_search_unstructured'' (JObj [(''query'', JStr ''q''), (''fileOnly'', JBool False)]))
     = [(\<lparr>host = JStr ''https://directory.axys.ai'', mcpKey = JStr ''k''\<rparr>,
         \<lparr>query = JStr ''q'', searchType = ''unstructured'', searchIndices = None,
          fileOnly = Some (JBool False)\<rparr>)]
   \<and> fst (callTool (\<lambda>c r. Inr JNull)
          (Some \<lparr>host = JStr ''https://directory.axys.ai'', mcpKey = JStr ''k''\<rparr>)
          ''ai_search_unstructured'' (JObj [(''query'', JStr ''q'')]))
     = [(\<lparr>host = JStr ''https://directory.axys.ai'', mcpKey = JStr ''k''\<rparr>,
         \<lparr>query = JStr ''q'', searchType = ''unstructured'', searchIndices = None,
          fileOnly = None\<rparr>)]"
  using unstructured_forwarding [of "JObj [(''query'', JStr ''q''), (''fileOnly'', JBool False)]"
      "\<lambda>c r. Inr JNull" "\<lparr>host = JStr ''https://directory.axys.ai'', mcpKey = JStr ''k''\<rparr>"]
    unstructured_forwarding [of "JObj [(''query'', JStr ''q'')]"
      "\<lambda>c r. Inr JNull" "\<lparr>host = JStr ''https://directory.axys.ai'', mcpKey = JStr ''k''\<rparr>"]
  by (simp add: optProp_def unstructuredRequest_def)

text \<open>
  The claim as it is written fails for \<open>searchIndices\<close>: supplied as the empty string, it is
  absent from the request that goes upstream.
\<close>

theorem empty_searchIndices_counterexample:
  "optProp (JObj [(''query'', JStr ''q''), (''searchIndices'', JStr [])]) ''searchIndices'' \<noteq> JUndefined
   \<and> fst (callTool (\<lambda>c r. Inr JNull) (Some \<lparr>host = JStr ''h'', mcpKey = JStr ''k''\<rparr>)
        ''ai_search_unstructured'' (JObj [(''query'', JStr ''q''), (''searchIndices'', JStr [])]))
     = [(\<lparr>host = JStr ''h'', mcpKey = JStr ''k''\<rparr>,
         \<lparr>query = JStr ''q'', searchType = ''unstructured'', searchIndices = None, fileOnly = None\<rparr>)]"
  by (simp add: callTool_def toolSwitch_def searchVia_def aiSearch_def optProp_def unstructuredRequest_def)

text \<open>
  Claim C6. \<open>validate_connection\<close> never throws: whatever the arguments, the bound client
  and the answer of the network, the handler returns a text result, which tells of a
  missing client, of a probe that failed (the probe threw) or of one that succeeded.
\<close>

theorem validate_connection_never_throws:
  "snd (callTool net mcpClient ''validate_connection'' args) =
     Inr (Text (case mcpClient of
                  None \<Rightarrow> validate_not_initialized_text
                | Some c \<Rightarrow>
                    (case net c \<lparr>query = JStr ''test'', searchType = ''structured'',
                                 searchIndices = None, fileOnly = None\<rparr> of
                       Inl m \<Rightarrow> validate_failed_text
                     | Inr r \<Rightarrow> validate_ok_text)))"
  by (simp add: callTool_def toolSwitch_def validateConnection_def aiSearch_def
           split: option.splits sum.splits)

text \<open>
  Claim C7, as the code has it. Past the guard for a missing client, an \<open>McpError\<close> raised
  inside the \<open>switch\<close> leaves the handler unchanged and an \<open>Error\<close> leaves it as an
  internal-error \<open>McpError\<close> whose message is \<open>Error executing\<close>, the tool name and the
  original message; no plain \<open>Error\<close> ever leaves the handler. An unknown tool name fails
  with the method-not-found error on a server with a client; on a server without one the
  guard answers with the text \<open>Error: MCP client not initialized ...\<close> and no error.
\<close>

theorem dispatch_error_conversion:
  "(mcpClient \<noteq> None \<or> name = ''validate_connection'' \<longrightarrow>
      toolSwitch net mcpClient name args = (calls, Inl (McpError code m)) \<longrightarrow>
      callTool net mcpClient name args = (calls, Inl (McpError code m)))
   \<and> (mcpClient \<noteq> None \<or> name = ''validate_connection'' \<longrightarrow>
      toolSwitch net mcpClient name args = (calls, Inl (Error m)) \<longrightarrow>
      callTool net mcpClient name args =
        (calls, Inl (McpError InternalError (''Error executing '' @ name @ '': '' @ m))))
   \<and> (mcpClient \<noteq> None \<longrightarrow>
      name \<noteq> ''ai_search_structured'' \<longrightarrow> name \<noteq> ''ai_search_unstructured'' \<longrightarrow>
      name \<noteq> ''validate_connection'' \<longrightarrow>
      callTool net mcpClient name args =
        ([], Inl (McpError MethodNotFound (''Unknown tool: '' @ name))))
   \<and> (mcpClient = None \<longrightarrow> name \<noteq> ''validate_connection'' \<longrightarrow>
      callTool net mcpClient name args = ([], Inr (Text not_initialized_text)))
   \<and> snd (callTool net mcpClient name args) \<noteq> Inl (Error m)"
proof -
  have a: "mcpClient \<noteq> None \<or> name = ''validate_connection'' \<longrightarrow>
      toolSwitch net mcpClient name args = (calls, Inl (McpError code m)) \<longrightarrow>
      callTool net mcpClient name args = (calls, Inl (McpError code m))"
    by (auto simp: callTool_def catchBlock_def)
  have b: "mcpClient \<noteq> None \<or> name = ''validate_connection'' \<longrightarrow>
      toolSwitch net mcpClient name args = (calls, Inl (Error m)) \<longrightarrow>
      callTool net mcpClient name args =
        (calls, Inl (McpError InternalError (''Error executing '' @ name @ '': '' @ m)))"
    by (auto simp: callTool_def catchBlock_def)
  have c: "mcpClient \<noteq> None \<longrightarrow>
      name \<noteq> ''ai_search_structured'' \<longrightarrow> name \<noteq> ''ai_search_unstructured'' \<longrightarrow>
      name \<noteq> ''validate_connection'' \<longrightarrow>
      callTool net mcpClient name args =
        ([], Inl (McpError MethodNotFound (''Unknown tool: '' @ name)))"
    by (simp add: callTool_def toolSwitch_def catchBlock_def)
  have d: "mcpClient = None \<longrightarrow> name \<noteq> ''validate_connection'' \<longrightarrow>
      callTool net mcpClient name args = ([], Inr (Text not_initialized_text))"
    by (simp add: callTool_def)
  have e: "snd (callTool net mcpClient name args) \<noteq> Inl (Error m)"
    by (simp add: callTool_def catchBlock_def split: prod.splits sum.splits thrown.splits)
  show ?thesis using a b c d e by blast
qed

theorem dispatch_error_conversion_witness:
  "callTool (\<lambda>c r. Inl ''No response received from GPT MCP API'')
       (Some \<lparr>host = JStr ''https://directory.axys.ai'', mcpKey = JStr ''k''\<rparr>)
       ''ai_search_structured'' (JObj [(''query'', JStr ''q'')])
     = ([(\<lparr>host = JStr ''https://directory.axys.ai'', mcpKey = JStr ''k''\<rparr>,
          \<lparr>query = JStr ''q'', searchType = ''structured'', searchIndices = None, fileOnly = None\<rparr>)],
        Inl (McpError InternalError
               ''Error executing ai_search_structured: No response received from GPT MCP API''))
   \<and> callTool (\<lambda>c r. Inl ''No response received from GPT MCP API'')
       (Some \<lparr>host = JStr ''https://directory.axys.ai'', mcpKey = JStr ''k''\<rparr>)
       ''ai_search_structured'' (JObj [])
     = ([], Inl (McpError InvalidParams ''query is required''))
   \<and> callTool (\<lambda>c r. Inl ''No response received from GPT MCP API'')
       (Some \<lparr>host = JStr ''https://directory.axys.ai'', mcpKey = JStr ''k''\<rparr>)
       ''list_everything'' JUndefined
     = ([], Inl (McpError MethodNotFound ''Unknown tool: list_everything''))
   \<and> callTool (\<lambda>c r. Inl ''No response received from GPT MCP API'') None
       ''ai_search_structured'' (JObj [(''query'', JStr ''q'')])
     = ([], Inr (Text not_initialized_text))"
proof -
  let ?net = "\<lambda>(c::GptApiConfig) (r::GptSearchRequest).
                (Inl ''No response received from GPT MCP API'' :: string + jsval)"
  let ?c = "\<lparr>host = JStr ''https://directory.axys.ai'', mcpKey = JStr ''k''\<rparr>"
  let ?r = "\<lparr>query = JStr ''q'', searchType = ''structured'', searchIndices = None, fileOnly = None\<rparr>"
  have s1: "toolSwitch ?net (Some ?c) ''ai_search_structured'' (JObj [(''query'', JStr ''q'')])
              = ([(?c, ?r)], Inl (Error ''No response received from GPT MCP API''))"
    by (simp add: toolSwitch_def optProp_def searchVia_def aiSearch_def)
  have s2: "toolSwitch ?net (Some ?c) ''ai_search_structured'' (JObj [])
              = ([], Inl (McpError InvalidParams ''query is required''))"
    by (simp add: toolSwitch_def optProp_def)
  show ?thesis
    using s1 s2
      dispatch_error_conversion [of "Some ?c" "''ai_search_structured''" ?net
         "JObj [(''query'', JStr ''q'')]" "[(?c, ?r)]" InvalidParams
         "''No response received from GPT MCP API''"]
      dispatch_error_conversion [of "Some ?c" "''ai_search_structured''" ?net
         "JObj []" "[]" InvalidParams "''query is required''"]
      dispatch_error_conversion [of "Some ?c" "''list_everything''" ?net JUndefined]
      dispatch_error_conversion [of None "''ai_search_structured''" ?net
         "JObj [(''query'', JStr ''q'')]"]
    by simp
qed

text \<open>
  The claim as it is written fails on a server without a client: an unknown tool name
  gets a text result, not the method-not-found error.
\<close>

theorem unknown_tool_without_client_counterexample:
  "callTool (\<lambda>c r. Inr JNull) None ''list_everything'' JUndefined
     = ([], Inr (Text not_initialized_text))
   \<and> (\<forall>m. snd (callTool (\<lambda>c r. Inr JNull) None ''list_everything'' JUndefined)
          \<noteq> Inl (McpError MethodNotFound m))"
  by (simp add: callTool_def)

text \<open>
  The handler that \<open>src/index.ts\<close> registers for \<open>ai_search_structured\<close> has no guard of its
  own: whatever query it receives, the empty string included, it sends the search.
\<close>

lemma structured_zod_sends_any_query:
  "fst (ai_search_structured_zod net c q) =
     [(c, \<lparr>query = q, searchType = ''structured'', searchIndices = None, fileOnly = None\<rparr>)]"
  by (simp add: ai_search_structured_zod_def aiSearch_def split: sum.splits)

section \<open>What the callbacks leave alone\<close>

lemma map_update_same:
  "(map f xs)[t := f (g (xs ! t))] = map f xs" if "\<And>x. f (g x) = f x"
proof (cases "t < length xs")
  case True
  then have "(map f xs)[t := f (g (xs ! t))] = (map f xs)[t := map f xs ! t]"
    using that by simp
  then show ?thesis by (simp only: list_update_id)
next
  case False
  then show ?thesis by (simp add: list_update_beyond)
qed

lemma onclose_frame:
  "mcpClients (onclose t s) = mcpClients s"
  "defaultMcpClient (onclose t s) = defaultMcpClient s"
  "objects (onclose t s) = objects s"
  by (simp_all add: onclose_def split: option.splits)

lemma onsessioninitialized_frame:
  "mcpClients (onsessioninitialized t u s) = mcpClients s"
  "defaultMcpClient (onsessioninitialized t u s) = defaultMcpClient s"
  "objects (onsessioninitialized t u s) = objects s"
  by (simp_all add: onsessioninitialized_def)

lemma setSessionId_frame:
  "mcpClients (setSessionId t u s) = mcpClients s"
  "defaultMcpClient (setSessionId t u s) = defaultMcpClient s"
  "transports (setSessionId t u s) = transports s"
  "length (objects (setSessionId t u s)) = length (objects s)"
  "map boundClient (objects (setSessionId t u s)) = map boundClient (objects s)"
proof -
  have "map boundClient ((objects s)[t := (objects s ! t)\<lparr>sessionId := Some u\<rparr>])
          = map boundClient (objects s)"
    using map_update_same [of boundClient "\<lambda>x. x\<lparr>sessionId := Some u\<rparr>" "objects s" t]
    by (simp add: map_update)
  then show "map boundClient (objects (setSessionId t u s)) = map boundClient (objects s)"
    by (simp add: setSessionId_def)
qed (simp_all add: setSessionId_def)

lemma sdkCallback_frame:
  "mcpClients (sdkCallback t c s) = mcpClients s"
  "defaultMcpClient (sdkCallback t c s) = defaultMcpClient s"
  "length (objects (sdkCallback t c s)) = length (objects s)"
  "map boundClient (objects (sdkCallback t c s)) = map boundClient (objects s)"
  by (cases c; simp add: onclose_frame onsessioninitialized_frame setSessionId_frame)+

lemma handleRequest_frame:
  "mcpClients (snd (handleRequest t run s)) = mcpClients s"
  "defaultMcpClient (snd (handleRequest t run s)) = defaultMcpClient s"
  "length (objects (snd (handleRequest t run s))) = length (objects s)"
  "map boundClient (objects (snd (handleRequest t run s))) = map boundClient (objects s)"
proof -
  have "mcpClients (foldl (\<lambda>s' c. sdkCallback t c s') s cs) = mcpClients s
      \<and> defaultMcpClient (foldl (\<lambda>s' c. sdkCallback t c s') s cs) = defaultMcpClient s
      \<and> length (objects (foldl (\<lambda>s' c. sdkCallback t c s') s cs)) = length (objects s)
      \<and> map boundClient (objects (foldl (\<lambda>s' c. sdkCallback t c s') s cs))
            = map boundClient (objects s)"
    for cs
    by (induction cs arbitrary: s) (simp_all add: sdkCallback_frame)
  then show "mcpClients (snd (handleRequest t run s)) = mcpClients s"
    "defaultMcpClient (snd (handleRequest t run s)) = defaultMcpClient s"
    "length (objects (snd (handleRequest t run s))) = length (objects s)"
    "map boundClient (objects (snd (handleRequest t run s))) = map boundClient (objects s)"
    by (simp_all add: handleRequest_def)
qed

lemma snd_routePost:
  "snd (routePost t run s) = snd (handleRequest t run s)"
  by (simp add: routePost_def split: prod.splits sdk_end.splits)

lemma routePost_frame:
  "mcpClients (snd (routePost t run s)) = mcpClients s"
  "defaultMcpClient (snd (routePost t run s)) = defaultMcpClient s"
  "length (objects (snd (routePost t run s))) = length (objects s)"
  "map boundClient (objects (snd (routePost t run s))) = map boundClient (objects s)"
  by (simp_all only: snd_routePost handleRequest_frame)

lemma routePost_response:
  "fst (routePost t run s) = ByTransport t \<or> fst (routePost t run s) = internalError"
  by (auto simp: routePost_def split: prod.splits sdk_end.splits)

lemma getMcpClient_frame:
  assumes "getMcpClient parses config s = Some (c, s')"
  shows "transports s' = transports s" and "objects s' = objects s"
    and "defaultMcpClient s' = defaultMcpClient s"
  using assms
  by (auto simp: getMcpClient_def Let_def split: if_splits option.splits)

lemma parse_no_config: "parseConfigFromQuery decode (JObj []) = Some JUndefined"
  by (simp add: parseConfigFromQuery_def)

lemma getMcpClient_undefined: "getMcpClient parses JUndefined s = Some (defaultMcpClient s, s)"
  by (simp add: getMcpClient_def)

section \<open>Two concrete runs\<close>

lemma start_bare:
  "startHttpServer example_parser bare_env =
     \<lparr>mcpClients = [], defaultMcpClient = None, transports = [], objects = []\<rparr>"
  by (simp add: startHttpServer_def envValue_def)

lemma first_session:
  "postMcp example_parser no_decode hdr True (JObj []) True ([Initialize uuid_a], Returns)
     (startHttpServer example_parser bare_env) = (ByTransport 0, one_session)" if "\<not> present hdr"
  using that
  by (simp add: start_bare postMcp_def parse_no_config getMcpClient_undefined routePost_def
      handleRequest_def setSessionId_def onsessioninitialized_def)


section \<open>Properties of the upstream configuration\<close>

lemma isValidUrl_string:
  "isValidUrl parses (JStr u) \<longleftrightarrow>
     parses (JStr u) \<and> (startsWith u ''http://'' \<or> startsWith u ''https://'')"
  by (auto simp: isValidUrl_def startsWith_def)

text \<open>
  Wherever a client is built from a configured host, its host is the configured value
  when that passes \<open>isValidUrl\<close> and the hard-coded default otherwise: the default client
  of the HTTP mode and of the stdio mode, built from \<open>AXYS_API_HOST\<close>, and the client that
  \<open>getMcpClient\<close> builds and caches for a per-request configuration. A string passes
  \<open>isValidUrl\<close> exactly when it parses as a URL and begins with \<open>http://\<close> or \<open>https://\<close>.
\<close>

lemma host_resolution:
  "(defaultMcpClient (startHttpServer parses env) = Some c \<longrightarrow>
      host c = (if isValidUrl parses (envValue (AXYS_API_HOST env))
                then envValue (AXYS_API_HOST env) else JStr DEFAULT_API_HOST))
   \<and> (startStdioServer parses env = Inr c \<longrightarrow>
      host c = (if isValidUrl parses (envValue (AXYS_API_HOST env))
                then envValue (AXYS_API_HOST env) else JStr DEFAULT_API_HOST))
   \<and> (getMcpClient parses config s = Some (Some c, s') \<and> mcpClients s' \<noteq> mcpClients s \<longrightarrow>
      host c = (if isValidUrl parses (getProp config ''AXYS_API_HOST'')
                then getProp config ''AXYS_API_HOST'' else JStr DEFAULT_API_HOST))
   \<and> (isValidUrl parses (JStr u) \<longleftrightarrow>
        parses (JStr u) \<and> (startsWith u ''http://'' \<or> startsWith u ''https://''))"
proof -
  have a: "defaultMcpClient (startHttpServer parses env) = Some c \<longrightarrow>
      host c = (if isValidUrl parses (envValue (AXYS_API_HOST env))
                then envValue (AXYS_API_HOST env) else JStr DEFAULT_API_HOST)"
    by (auto simp: startHttpServer_def Let_def split: if_splits)
  have b: "startStdioServer parses env = Inr c \<longrightarrow>
      host c = (if isValidUrl parses (envValue (AXYS_API_HOST env))
                then envValue (AXYS_API_HOST env) else JStr DEFAULT_API_HOST)"
    by (auto simp: startStdioServer_def Let_def split: if_splits)
  have c: "getMcpClient parses config s = Some (Some c, s') \<and> mcpClients s' \<noteq> mcpClients s \<longrightarrow>
      host c = (if isValidUrl parses (getProp config ''AXYS_API_HOST'')
                then getProp config ''AXYS_API_HOST'' else JStr DEFAULT_API_HOST)"
    by (auto simp: getMcpClient_def Let_def update_conv' split: if_splits option.splits)
  show ?thesis using a b c isValidUrl_string by blast
qed

text \<open>
  Claim C8 at a per-request configuration that the cache answers. The cache key is the
  host, a colon and the key, so the host \<open>http://localhost\<close> with the key \<open>9000:k\<close> has the
  key of the host \<open>http://localhost:9000\<close> with the key \<open>k\<close>. After the second tenant was
  served, \<open>getMcpClient\<close> gives the first one the second's client: the host
  \<open>http://localhost\<close> passes \<open>isValidUrl\<close> and is not the host of the client returned.
\<close>

theorem cache_key_collision:
  "isValidUrl example_parser (JStr ''http://localhost'')
   \<and> getMcpClient example_parser
        (JObj [(''AXYS_API_HOST'', JStr ''http://localhost:9000''), (''MCP_KEY'', JStr ''k'')])
        (startHttpServer example_parser bare_env)
      = Some (Some \<lparr>host = JStr ''http://localhost:9000'', mcpKey = JStr ''k''\<rparr>, one_tenant)
   \<and> getMcpClient example_parser
        (JObj [(''AXYS_API_HOST'', JStr ''http://localhost''), (''MCP_KEY'', JStr ''9000:k'')])
        one_tenant
      = Some (Some \<lparr>host = JStr ''http://localhost:9000'', mcpKey = JStr ''k''\<rparr>, one_tenant)"
proof -
  have v: "isValidUrl example_parser (JStr ''http://localhost'')"
    by (simp add: isValidUrl_def startsWith_def)
  have w: "isValidUrl example_parser (JStr ''http://localhost:9000'')"
    by (simp add: isValidUrl_def startsWith_def)
  have a: "getMcpClient example_parser
        (JObj [(''AXYS_API_HOST'', JStr ''http://localhost:9000''), (''MCP_KEY'', JStr ''k'')])
        (startHttpServer example_parser bare_env)
      = Some (Some \<lparr>host = JStr ''http://localhost:9000'', mcpKey = JStr ''k''\<rparr>, one_tenant)"
    using w by (simp add: getMcpClient_def start_bare Let_def)
  have b: "getMcpClient example_parser
        (JObj [(''AXYS_API_HOST'', JStr ''http://localhost''), (''MCP_KEY'', JStr ''9000:k'')])
        one_tenant
      = Some (Some \<lparr>host = JStr ''http://localhost:9000'', mcpKey = JStr ''k''\<rparr>, one_tenant)"
    using v by (simp add: getMcpClient_def Let_def)
  show ?thesis using v a b by simp
qed

text \<open>
  Claim C10. A per-request configuration whose \<open>MCP_KEY\<close> is absent or the empty string
  gets from \<open>getMcpClient\<close> what no configuration at all gets: the default client of the
  process, which may be null, and an unchanged client cache. An initialising POST that
  carries such a configuration is not rejected for it; the server instance of the new
  transport is bound to the default client, and the cache has no new entry.
\<close>

theorem config_without_key_uses_default:
  assumes "getProp config ''MCP_KEY'' = JUndefined \<or> getProp config ''MCP_KEY'' = JStr []"
  shows "getMcpClient parses config s = Some (defaultMcpClient s, s)
       \<and> getMcpClient parses config s = getMcpClient parses JUndefined s
       \<and> (parseConfigFromQuery decode q = Some config \<longrightarrow> \<not> present hdr \<longrightarrow> isInit \<longrightarrow>
            mcpClients (snd (postMcp parses decode hdr isInit q connects run s)) = mcpClients s
            \<and> map boundClient (objects (snd (postMcp parses decode hdr isInit q connects run s)))
                = map boundClient (objects s) @ [defaultMcpClient s]
            \<and> fst (postMcp parses decode hdr isInit q connects run s) \<noteq> badRequest)"
proof -
  have g: "getMcpClient parses config s = Some (defaultMcpClient s, s)"
    using assms by (auto simp: getMcpClient_def)
  have n: "getMcpClient parses JUndefined s = Some (defaultMcpClient s, s)"
    by (simp add: getMcpClient_def)
  have p: "mcpClients (snd (postMcp parses decode hdr isInit q connects run s)) = mcpClients s
            \<and> map boundClient (objects (snd (postMcp parses decode hdr isInit q connects run s)))
                = map boundClient (objects s) @ [defaultMcpClient s]
            \<and> fst (postMcp parses decode hdr isInit q connects run s) \<noteq> badRequest"
    if c: "parseConfigFromQuery decode q = Some config" and h: "\<not> present hdr" and i: "isInit"
  proof -
    define s3 where
      "s3 = s\<lparr>objects := objects s @ [\<lparr>sessionId = None, boundClient = defaultMcpClient s\<rparr>]\<rparr>"
    have e: "postMcp parses decode hdr isInit q connects run s =
               (if connects then routePost (length (objects s)) run s3 else (internalError, s3))"
      using c h i g by (simp add: postMcp_def Let_def s3_def)
    have d: "internalError \<noteq> badRequest"
      by (simp add: badRequest_def internalError_def)
    have r: "fst (routePost (length (objects s)) run s3) \<noteq> badRequest"
      using routePost_response [of "length (objects s)" run s3] d
      by (auto simp: badRequest_def)
    have s3: "mcpClients s3 = mcpClients s"
      "map boundClient (objects s3) = map boundClient (objects s) @ [defaultMcpClient s]"
      by (simp_all add: s3_def)
    show ?thesis
    proof (cases connects)
      case True
      then show ?thesis
        using e r s3 routePost_frame(1,4) [of "length (objects s)" run s3] by simp
    next
      case False
      then show ?thesis using e d s3 by simp
    qed
  qed
  show ?thesis using g n p by simp
qed

theorem config_without_key_uses_default_witness:
  "getMcpClient example_parser
       (JObj [(''AXYS_API_HOST'', JStr ''https://tenant.example''), (''MCP_KEY'', JUndefined)])
       (startHttpServer example_parser \<lparr>AXYS_API_HOST = None, MCP_KEY = Some ''env-key''\<rparr>)
     = Some (Some \<lparr>host = JStr ''https://directory.axys.ai'', mcpKey = JStr ''env-key''\<rparr>,
             startHttpServer example_parser \<lparr>AXYS_API_HOST = None, MCP_KEY = Some ''env-key''\<rparr>)
   \<and> map boundClient (objects (snd (postMcp example_parser no_decode None True
          (JObj [(''AXYS_API_HOST'', JStr ''https://tenant.example'')]) True
          ([Initialize uuid_a], Returns)
          (startHttpServer example_parser \<lparr>AXYS_API_HOST = None, MCP_KEY = Some ''env-key''\<rparr>))))
     = [Some \<lparr>host = JStr ''https://directory.axys.ai'', mcpKey = JStr ''env-key''\<rparr>]
   \<and> mcpClients (snd (postMcp example_parser no_decode None True
          (JObj [(''AXYS_API_HOST'', JStr ''https://tenant.example'')]) True
          ([Initialize uuid_a], Returns)
          (startHttpServer example_parser \<lparr>AXYS_API_HOST = None, MCP_KEY = Some ''env-key''\<rparr>)))
     = []"
proof -
  let ?cfg = "JObj [(''AXYS_API_HOST'', JStr ''https://tenant.example''), (''MCP_KEY'', JUndefined)]"
  let ?q = "JObj [(''AXYS_API_HOST'', JStr ''https://tenant.example'')]"
  let ?s = "startHttpServer example_parser \<lparr>AXYS_API_HOST = None, MCP_KEY = Some ''env-key''\<rparr>"
  have s: "?s = \<lparr>mcpClients = [],
                 defaultMcpClient = Some \<lparr>host = JStr ''https://directory.axys.ai'', mcpKey = JStr ''env-key''\<rparr>,
                 transports = [], objects = []\<rparr>"
    by (simp add: startHttpServer_def envValue_def isValidUrl_def DEFAULT_API_HOST_def)
  have c: "parseConfigFromQuery no_decode ?q = Some ?cfg"
    by (simp add: parseConfigFromQuery_def)
  have k: "getProp ?cfg ''MCP_KEY'' = JUndefined \<or> getProp ?cfg ''MCP_KEY'' = JStr []"
    by simp
  show ?thesis
    using config_without_key_uses_default [OF k, of example_parser ?s no_decode ?q None True True
        "([Initialize uuid_a], Returns)"] c
    by (simp add: s present_def)
qed

section \<open>Properties of the POST handler\<close>

text \<open>
  Claim C1, as the code has it. A POST whose session header is a non-empty string creates
  no transport, no server instance and no client, whatever its body. When its query
  parameters are read without an error: if the header is neither a key of the table
  nor a name the table object inherits, the answer is status 400 with the JSON-RPC error
  -32000 \<open>Bad Request: No valid session ID provided\<close> and the state is unchanged; if it is
  a key of the table, the request goes to that entry's transport.
\<close>

theorem post_unknown_session_rejected:
  assumes "sid \<noteq> []"
  shows "(parseConfigFromQuery decode q \<noteq> None \<longrightarrow> tableGet (transports s) sid = Missing \<longrightarrow>
            postMcp parses decode (Some sid) isInit q connects run s =
              (JsonRpcError 400 (- 32000) ''Bad Request: No valid session ID provided'', s))
       \<and> (parseConfigFromQuery decode q \<noteq> None \<longrightarrow> tableGet (transports s) sid = Own t \<longrightarrow>
            postMcp parses decode (Some sid) isInit q connects run s = routePost t run s)
       \<and> length (objects (snd (postMcp parses decode (Some sid) isInit q connects run s)))
            = length (objects s)
       \<and> mcpClients (snd (postMcp parses decode (Some sid) isInit q connects run s))
            = mcpClients s"
proof -
  have p: "present (Some sid)" using assms by (simp add: present_def)
  have l: "tableLookup (transports s) (Some sid) = tableGet (transports s) sid"
    by (simp add: tableLookup_def)
  have a: "parseConfigFromQuery decode q \<noteq> None \<longrightarrow> tableGet (transports s) sid = Missing \<longrightarrow>
            postMcp parses decode (Some sid) isInit q connects run s =
              (JsonRpcError 400 (- 32000) ''Bad Request: No valid session ID provided'', s)"
    using p l by (auto simp: postMcp_def badRequest_def)
  have b: "parseConfigFromQuery decode q \<noteq> None \<longrightarrow> tableGet (transports s) sid = Own t \<longrightarrow>
            postMcp parses decode (Some sid) isInit q connects run s = routePost t run s"
    using p l by (auto simp: postMcp_def)
  have c: "length (objects (snd (postMcp parses decode (Some sid) isInit q connects run s)))
            = length (objects s)
       \<and> mcpClients (snd (postMcp parses decode (Some sid) isInit q connects run s))
            = mcpClients s"
    using p l
    by (cases "parseConfigFromQuery decode q"; cases "tableGet (transports s) sid")
       (simp_all add: postMcp_def routePost_frame)
  show ?thesis using a b c by simp
qed

theorem post_unknown_session_rejected_witness:
  "postMcp example_parser no_decode (Some uuid_b) True (JObj []) True ([Initialize uuid_b], Returns)
       one_session
     = (JsonRpcError 400 (- 32000) ''Bad Request: No valid session ID provided'', one_session)
   \<and> postMcp example_parser no_decode (Some uuid_a) False (JObj []) True ([], Returns) one_session
     = (ByTransport 0, one_session)"
proof -
  have m: "tableGet (transports one_session) uuid_b = Missing"
    by (simp add: tableGet_def Object_prototype_names_def)
  have o: "tableGet (transports one_session) uuid_a = Own 0"
    by (simp add: tableGet_def)
  have r: "routePost 0 ([], Returns) one_session = (ByTransport 0, one_session)"
    by (simp add: routePost_def handleRequest_def)
  have b: "uuid_b \<noteq> []" and a: "uuid_a \<noteq> []"
    by simp_all
  show ?thesis
    using m o r parse_no_config [of no_decode]
      post_unknown_session_rejected [OF b, where s = one_session and parses = example_parser
        and decode = no_decode and isInit = True and q = "JObj []" and connects = True
        and run = "([Initialize uuid_b], Returns)"]
      post_unknown_session_rejected [OF a, where s = one_session and parses = example_parser
        and decode = no_decode and isInit = False and q = "JObj []" and connects = True
        and run = "([], Returns)" and t = 0]
    by simp
qed

text \<open>
  The claim as it is written fails for a header that is present and empty: the code
  tests the header by truthiness, so an initialising POST that carries it creates a
  session although no entry of the table has that identifier.
\<close>

theorem post_empty_header_counterexample:
  "tableGet (transports (startHttpServer example_parser bare_env)) [] = Missing
   \<and> postMcp example_parser no_decode (Some []) True (JObj []) True ([Initialize uuid_a], Returns)
        (startHttpServer example_parser bare_env) = (ByTransport 0, one_session)"
  using first_session [of "Some []"]
  by (simp add: present_def start_bare tableGet_def Object_prototype_names_def)

section \<open>Invariants of the session table\<close>

lemma keys_onclose: "fst ` set (transports (onclose t s)) \<subseteq> fst ` set (transports s)"
proof (cases "sessionIdOf s t")
  case None
  then show ?thesis by (simp add: onclose_def)
next
  case (Some sid)
  show ?thesis
    using dom_delete_subset [of sid "transports s"] Some
    by (cases "sid \<noteq> [] \<and> tableGet (transports s) sid \<noteq> Missing") (simp_all add: onclose_def)
qed





















section \<open>Properties of the close path\<close>

lemma objects_onclose: "objects (onclose t s) = objects s"
  by (simp add: onclose_def split: option.splits)

lemma sessionIdOf_onclose: "sessionIdOf (onclose t s) t' = sessionIdOf s t'"
  by (simp add: sessionIdOf_def objects_onclose)

lemma tableGet_Missing: "tableGet tbl k = Missing \<Longrightarrow> map_of tbl k = None"
  by (simp add: tableGet_def split: option.splits)

lemma onclose_removes_entry:
  assumes "sessionIdOf s t = Some sid" and "sid \<noteq> []"
  shows "map_of (transports (onclose t s)) sid = None"
proof (cases "tableGet (transports s) sid = Missing")
  case True
  then show ?thesis using assms tableGet_Missing [OF True] by (simp add: onclose_def)
next
  case False
  then show ?thesis using assms by (simp add: onclose_def delete_conv')
qed

lemma onclose_idempotent: "onclose t (onclose t s) = onclose t s"
proof (cases "sessionIdOf s t")
  case None
  then show ?thesis by (simp add: onclose_def)
next
  case (Some sid)
  show ?thesis
  proof (cases "sid \<noteq> [] \<and> tableGet (transports s) sid \<noteq> Missing")
    case True
    define s1 where "s1 = s\<lparr>transports := AList.delete sid (transports s)\<rparr>"
    have o1: "onclose t s = s1"
      using True Some by (simp add: onclose_def s1_def)
    have "sessionIdOf s1 t = sessionIdOf s t"
      by (simp add: sessionIdOf_def s1_def)
    then have o2: "onclose t s1 =
        (if sid \<noteq> [] \<and> tableGet (transports s1) sid \<noteq> Missing
         then s1\<lparr>transports := AList.delete sid (transports s1)\<rparr> else s1)"
      using Some by (simp add: onclose_def)
    have "s1\<lparr>transports := AList.delete sid (transports s1)\<rparr> = s1"
      by (simp add: s1_def delete_idem)
    then have "onclose t s1 = s1" using o2 by simp
    then show ?thesis by (simp add: o1)
  next
    case False
    then have "onclose t s = s" using Some by (auto simp: onclose_def)
    then show ?thesis by simp
  qed
qed

lemma delete_unknown_session:
  assumes "\<not> present hdr \<or> tableLookup (transports s) hdr = Missing"
  shows "deleteMcp hdr run s = (PlainText 400 ''Invalid or missing session ID'', s)"
  using assms by (auto simp: deleteMcp_def routeBare_def)

lemma delete_after_close:
  assumes "sessionIdOf s t = Some sid" and "sid \<noteq> []" and "sid \<notin> set Object_prototype_names"
  shows "deleteMcp (Some sid) run (onclose t s) =
           (PlainText 400 ''Invalid or missing session ID'', onclose t s)"
proof -
  have "tableLookup (transports (onclose t s)) (Some sid) = Missing"
    using onclose_removes_entry [OF assms(1,2)] assms(3)
    by (simp add: tableLookup_def tableGet_def)
  then show ?thesis by (rule delete_unknown_session [OF disjI2])
qed

text \<open>
  Claim C3 at a session that is absent from the table. On a server that has no session
  at all, a DELETE whose session header is \<open>constructor\<close> is not answered with the 400 of
  an unknown session: the read \<open>transports['constructor']\<close> finds the property that the
  table object inherits, the guard lets the request through, and the call of
  \<open>handleRequest\<close> on that value raises an error that nothing catches.
\<close>

theorem delete_inherited_name_raises:
  "transports (startHttpServer example_parser bare_env) = []
   \<and> deleteMcp (Some ''constructor'') ([], Returns) (startHttpServer example_parser bare_env)
      = (Rejected, startHttpServer example_parser bare_env)"
  by (simp add: deleteMcp_def routeBare_def present_def tableLookup_def tableGet_def
        Object_prototype_names_def start_bare)

section \<open>Properties of the shutdown\<close>

lemma keys_delete: "fst ` set (AList.delete k al) = fst ` set al - {k}"
proof -
  have "set (map fst (AList.delete k al)) = set (map fst al) - {k}"
    by (simp only: delete_keys set_removeAll)
  then show ?thesis by (simp only: set_map)
qed

lemma keys_delete_onclose:
  "fst ` set (AList.delete k (transports (if b then onclose t s else s)))
     \<subseteq> fst ` set (transports s) - {k}"
proof (cases b)
  case True
  have "fst ` set (AList.delete k (transports (onclose t s)))
          = fst ` set (transports (onclose t s)) - {k}"
    by (rule keys_delete)
  then show ?thesis using True keys_onclose [of t s] by auto
next
  case False
  then show ?thesis by (simp add: keys_delete)
qed

lemma shutdownLoop_keys:
  "shutdownLoop closes ks s = (logged, s') \<Longrightarrow>
     fst ` set (transports s') \<subseteq> fst ` set (transports s)
     \<and> (\<forall>k \<in> set ks. k \<in> fst ` set (transports s') \<longrightarrow> throws (closes k))
     \<and> set logged \<subseteq> {k \<in> set ks. throws (closes k)}"
proof (induction ks arbitrary: s logged)
  case Nil
  then show ?case by simp
next
  case (Cons k ks)
  show ?case
  proof (cases "map_of (transports s) k")
    case None
    then have r: "shutdownLoop closes ks s = (logged, s')"
      using Cons.prems by simp
    have nk: "k \<notin> fst ` set (transports s)"
      using None by (simp add: map_of_eq_None_iff)
    show ?thesis using Cons.IH [OF r] nk by (simp add: subset_iff) blast?
  next
    case (Some t)
    define s1 where "s1 = (if callsOnclose (closes k) then onclose t s else s)"
    have k1: "fst ` set (transports s1) \<subseteq> fst ` set (transports s)"
      using keys_onclose [of t s] by (simp add: s1_def)
    show ?thesis
    proof (cases "throws (closes k)")
      case True
      obtain l2 where r: "shutdownLoop closes ks s1 = (l2, s')" and l: "logged = k # l2"
        using Cons.prems Some True
        by (auto simp: s1_def Let_def split: prod.splits)
      show ?thesis using Cons.IH [OF r] k1 True l by (simp add: subset_iff) blast?
    next
      case False
      have r: "shutdownLoop closes ks (s1\<lparr>transports := AList.delete k (transports s1)\<rparr>) = (logged, s')"
        using Cons.prems Some False by (simp add: s1_def Let_def)
      have k2: "fst ` set (transports (s1\<lparr>transports := AList.delete k (transports s1)\<rparr>))
                  \<subseteq> fst ` set (transports s) - {k}"
        using keys_delete_onclose [of k "callsOnclose (closes k)" t s] by (simp add: s1_def)
      show ?thesis using Cons.IH [OF r] k2 by (simp add: subset_iff) blast?
    qed
  qed
qed

text \<open>
  For any table whatever: the exit code is 0, every key left in the table and every key
  logged is one whose \<open>close()\<close> threw, and when no \<open>close()\<close> throws the table ends empty.
\<close>

lemma shutdown_survivors_threw:
  assumes "sigint closes s = (logged, s', code)"
  shows "code = 0
       \<and> fst ` set (transports s') \<subseteq> {k \<in> fst ` set (transports s). throws (closes k)}
       \<and> set logged \<subseteq> {k \<in> fst ` set (transports s). throws (closes k)}
       \<and> ((\<forall>k \<in> fst ` set (transports s). \<not> throws (closes k)) \<longrightarrow>
             transports s' = [] \<and> logged = [])"
proof -
  define ks where "ks = map fst (transports s)"
  have ks: "set ks = fst ` set (transports s)"
    by (simp add: ks_def)
  obtain l1 s1 where r1: "shutdownLoop closes ks s = (l1, s1)"
    by (cases "shutdownLoop closes ks s")
  have "sigint closes s = (l1, s1, 0)"
    using r1 by (simp add: sigint_def ks_def)
  then have r: "shutdownLoop closes ks s = (logged, s')" and c: "code = 0"
    using assms r1 by simp_all
  note f = shutdownLoop_keys [OF r]
  have a: "fst ` set (transports s') \<subseteq> fst ` set (transports s)"
    using f by (rule conjunct1)
  have b: "\<forall>k \<in> set ks. k \<in> fst ` set (transports s') \<longrightarrow> throws (closes k)"
    using f by (rule conjunct1 [OF conjunct2])
  have l0: "set logged \<subseteq> {k \<in> set ks. throws (closes k)}"
    using f by (rule conjunct2 [OF conjunct2])
  have k: "fst ` set (transports s') \<subseteq> {k \<in> fst ` set (transports s). throws (closes k)}"
    using a b unfolding ks by blast
  have l: "set logged \<subseteq> {k \<in> fst ` set (transports s). throws (closes k)}"
    using l0 unfolding ks by blast
  have e: "transports s' = [] \<and> logged = []"
    if n: "\<forall>k \<in> fst ` set (transports s). \<not> throws (closes k)"
  proof -
    have e0: "{k \<in> fst ` set (transports s). throws (closes k)} = {}"
      using n by blast
    have "fst ` set (transports s') \<subseteq> {}"
      using k unfolding e0 .
    then have t: "transports s' = []" by simp
    have "set logged \<subseteq> {}"
      using l unfolding e0 .
    then have "logged = []" by simp
    then show ?thesis using t by simp
  qed
  show ?thesis using c k l e by blast
qed

lemma registered_entry:
  assumes "registered s" and "map_of (transports s) k = Some t"
  shows "k \<noteq> []" and "sessionIdOf s t = Some k"
proof -
  have "(k, t) \<in> set (transports s)"
    using assms(2) by (rule map_of_SomeD)
  then show "k \<noteq> []" and "sessionIdOf s t = Some k"
    using assms(1) by (auto simp: registered_def)
qed

lemma onclose_registered:
  assumes "registered s" and "map_of (transports s) k = Some t"
  shows "onclose t s = s\<lparr>transports := AList.delete k (transports s)\<rparr>"
proof -
  have g: "tableGet (transports s) k \<noteq> Missing"
    using assms(2) by (simp add: tableGet_def)
  show ?thesis
    using registered_entry [OF assms] g by (simp add: onclose_def)
qed

lemma delete_filter: "AList.delete k al = filter (\<lambda>e. fst e \<noteq> k) al"
  by (induction al) auto

lemma registered_filter:
  assumes "registered s"
  shows "registered (s\<lparr>transports := filter P (transports s)\<rparr>)"
proof -
  have d: "distinct (map fst (filter P (transports s)))"
    using assms by (simp add: registered_def distinct_map_filter)
  have e: "\<forall>(k, t) \<in> set (filter P (transports s)). k \<noteq> [] \<and> sessionIdOf s t = Some k"
    using assms by (auto simp: registered_def)
  have o: "sessionIdOf (s\<lparr>transports := filter P (transports s)\<rparr>) t = sessionIdOf s t" for t
    by (simp add: sessionIdOf_def)
  show ?thesis
    using d e by (simp add: registered_def o)
qed

lemma shutdownLoop_registered:
  assumes "registered s" and "distinct ks" and "set ks \<subseteq> fst ` set (transports s)"
  shows "shutdownLoop closes ks s =
           (filter (\<lambda>k. throws (closes k)) ks,
            s\<lparr>transports :=
                 filter (\<lambda>e. fst e \<notin> set ks \<or> (throws (closes (fst e)) \<and> \<not> callsOnclose (closes (fst e))))
                   (transports s)\<rparr>)"
  using assms
proof (induction ks arbitrary: s)
  case Nil
  then show ?case by simp
next
  case (Cons k ks)
  have kin: "k \<in> fst ` set (transports s)" and ks: "set ks \<subseteq> fst ` set (transports s)"
    and kn: "k \<notin> set ks" and dks: "distinct ks"
    using Cons.prems by auto
  obtain t where t: "map_of (transports s) k = Some t"
    using kin by (cases "map_of (transports s) k") (auto simp: map_of_eq_None_iff)
  define del where "del = s\<lparr>transports := filter (\<lambda>e. fst e \<noteq> k) (transports s)\<rparr>"
  have oc: "onclose t s = del"
    using onclose_registered [OF Cons.prems(1) t] by (simp add: del_def delete_filter)
  have rdel: "registered del"
    unfolding del_def by (rule registered_filter [OF Cons.prems(1)])
  have kdel: "set ks \<subseteq> fst ` set (transports del)"
    using ks kn by (auto simp: del_def)
  have deldel: "del\<lparr>transports := AList.delete k (transports del)\<rparr> = del"
    by (simp add: del_def delete_filter)
  have sdel: "s\<lparr>transports := AList.delete k (transports s)\<rparr> = del"
    by (simp add: del_def delete_filter)
  have fdel: "filter (\<lambda>e. fst e \<notin> set ks \<or> (throws (closes (fst e)) \<and> \<not> callsOnclose (closes (fst e))))
                (transports del)
              = filter (\<lambda>e. fst e \<noteq> k \<and> (fst e \<notin> set ks \<or> (throws (closes (fst e)) \<and> \<not> callsOnclose (closes (fst e)))))
                (transports s)"
    by (simp add: del_def conj_commute)
  let ?S = "\<lambda>e. throws (closes (fst e)) \<and> \<not> callsOnclose (closes (fst e))"
  have IHdel: "shutdownLoop closes ks del =
           (filter (\<lambda>k. throws (closes k)) ks,
            del\<lparr>transports := filter (\<lambda>e. fst e \<notin> set ks \<or> ?S e) (transports del)\<rparr>)"
    by (rule Cons.IH [OF rdel dks kdel])
  have IHs: "shutdownLoop closes ks s =
           (filter (\<lambda>k. throws (closes k)) ks,
            s\<lparr>transports := filter (\<lambda>e. fst e \<notin> set ks \<or> ?S e) (transports s)\<rparr>)"
    by (rule Cons.IH [OF Cons.prems(1) dks ks])
  have tdel: "del\<lparr>transports := filter (\<lambda>e. fst e \<notin> set ks \<or> ?S e) (transports del)\<rparr>
              = s\<lparr>transports := filter (\<lambda>e. fst e \<notin> set (k # ks) \<or> ?S e) (transports s)\<rparr>"
    if "\<not> (throws (closes k) \<and> \<not> callsOnclose (closes k))"
  proof -
    have "filter (\<lambda>e. fst e \<noteq> k \<and> (fst e \<notin> set ks \<or> ?S e)) (transports s)
            = filter (\<lambda>e. fst e \<notin> set (k # ks) \<or> ?S e) (transports s)"
      using that by (intro filter_cong [OF refl]) auto
    then show ?thesis by (simp add: fdel del_def)
  qed
  have ts: "s\<lparr>transports := filter (\<lambda>e. fst e \<notin> set ks \<or> ?S e) (transports s)\<rparr>
              = s\<lparr>transports := filter (\<lambda>e. fst e \<notin> set (k # ks) \<or> ?S e) (transports s)\<rparr>"
    if "throws (closes k) \<and> \<not> callsOnclose (closes k)"
  proof -
    have "filter (\<lambda>e. fst e \<notin> set ks \<or> ?S e) (transports s)
            = filter (\<lambda>e. fst e \<notin> set (k # ks) \<or> ?S e) (transports s)"
      using that by (intro filter_cong [OF refl]) auto
    then show ?thesis by simp
  qed
  show ?case
  proof (cases "throws (closes k)")
    case True
    show ?thesis
    proof (cases "callsOnclose (closes k)")
      case c: True
      have "shutdownLoop closes (k # ks) s =
              (k # fst (shutdownLoop closes ks del), snd (shutdownLoop closes ks del))"
        using t True c oc by (simp add: split_def)
      then show ?thesis
        using True c tdel by (simp add: IHdel)
    next
      case c: False
      have "shutdownLoop closes (k # ks) s =
              (k # fst (shutdownLoop closes ks s), snd (shutdownLoop closes ks s))"
        using t True c by (simp add: split_def)
      then show ?thesis
        using True c ts by (simp add: IHs)
    qed
  next
    case False
    have "shutdownLoop closes (k # ks) s = shutdownLoop closes ks del"
      using t False oc deldel sdel by (simp add: Let_def)
    then show ?thesis
      using False tdel by (simp add: IHdel)
  qed
qed

text \<open>
  Claim C9, as the code has it. The \<open>SIGINT\<close> handler always ends with exit code 0. On a
  registered table it visits every key exactly once, in the order of the table, and its
  outcome is this: the keys logged are exactly those whose \<open>close()\<close> throws; the entries
  left in the table at exit are exactly those whose \<open>close()\<close> throws before the transport
  has called \<open>onclose\<close>, since the \<open>delete\<close> after \<open>close()\<close> is skipped; every other entry is
  removed; nothing else of the state changes.
\<close>

theorem shutdown_best_effort:
  "snd (snd (sigint closes s)) = 0
   \<and> (registered s \<longrightarrow>
        sigint closes s =
          (filter (\<lambda>k. throws (closes k)) (map fst (transports s)),
           s\<lparr>transports :=
                filter (\<lambda>e. throws (closes (fst e)) \<and> \<not> callsOnclose (closes (fst e)))
                  (transports s)\<rparr>,
           0))"
proof -
  have c: "snd (snd (sigint closes s)) = 0"
    by (simp add: sigint_def split: prod.splits)
  have e: "sigint closes s =
          (filter (\<lambda>k. throws (closes k)) (map fst (transports s)),
           s\<lparr>transports :=
                filter (\<lambda>e. throws (closes (fst e)) \<and> \<not> callsOnclose (closes (fst e)))
                  (transports s)\<rparr>,
           0)" if r: "registered s"
  proof -
    have d: "distinct (map fst (transports s))"
      using r by (simp add: registered_def)
    have l: "shutdownLoop closes (map fst (transports s)) s =
           (filter (\<lambda>k. throws (closes k)) (map fst (transports s)),
            s\<lparr>transports :=
                 filter (\<lambda>e. fst e \<notin> set (map fst (transports s))
                          \<or> (throws (closes (fst e)) \<and> \<not> callsOnclose (closes (fst e))))
                   (transports s)\<rparr>)"
      by (rule shutdownLoop_registered [OF r d]) simp
    have f: "filter (\<lambda>e. fst e \<notin> set (map fst (transports s))
                          \<or> (throws (closes (fst e)) \<and> \<not> callsOnclose (closes (fst e))))
                   (transports s)
             = filter (\<lambda>e. throws (closes (fst e)) \<and> \<not> callsOnclose (closes (fst e)))
                   (transports s)"
      by (intro filter_cong [OF refl]) auto
    show ?thesis
      by (simp only: sigint_def l f prod.case)
  qed
  show ?thesis using c e by blast
qed

lemma registered_one_session: "registered one_session"
  by (simp add: registered_def sessionIdOf_def)

theorem shutdown_best_effort_witness:
  "registered one_session
   \<and> sigint (\<lambda>k. CloseRun True False) one_session = ([], one_session\<lparr>transports := []\<rparr>, 0)
   \<and> sigint (\<lambda>k. CloseRun True True) one_session = ([uuid_a], one_session\<lparr>transports := []\<rparr>, 0)
   \<and> sigint (\<lambda>k. CloseRun False True) one_session = ([uuid_a], one_session, 0)"
  using registered_one_session
    shutdown_best_effort [of "\<lambda>k. CloseRun True False" one_session]
    shutdown_best_effort [of "\<lambda>k. CloseRun True True" one_session]
    shutdown_best_effort [of "\<lambda>k. CloseRun False True" one_session]
  by simp

text \<open>
  The claim as it is written fails when a \<open>close()\<close> throws before the transport has
  called \<open>onclose\<close>: the entry is still in the table when the process exits with code 0.
\<close>

theorem shutdown_failed_close_counterexample:
  "sigint (\<lambda>k. CloseRun False True) one_session = ([uuid_a], one_session, 0)
   \<and> transports one_session \<noteq> []"
  by (simp add: sigint_def)

text \<open>
  Every state the server reaches is registered, provided the transport keeps to what the
  SDK does: it initialises a session only for the POST that created it, once, under a
  non-empty identifier.
\<close>

lemma registered_cong:
  "transports s' = transports s \<Longrightarrow> objects s' = objects s \<Longrightarrow> registered s' = registered s"
  by (simp add: registered_def sessionIdOf_def)

lemma registered_onclose: "registered s \<Longrightarrow> registered (onclose t s)"
proof -
  assume r: "registered s"
  have "onclose t s = s \<or> (\<exists>k. onclose t s = s\<lparr>transports := filter (\<lambda>e. fst e \<noteq> k) (transports s)\<rparr>)"
    by (auto simp: onclose_def delete_filter split: option.splits)
  then show ?thesis using r registered_filter [OF r] by auto
qed

lemma callbacks_without_initialize:
  "registered s \<Longrightarrow> concat (map generatedBy cs) = [] \<Longrightarrow>
     registered (foldl (\<lambda>s' c. sdkCallback t c s') s cs)"
proof (induction cs arbitrary: s)
  case Nil
  then show ?case by simp
next
  case (Cons c cs)
  then have c: "c = Close" and rest: "concat (map generatedBy cs) = []"
    by (cases c; simp)+
  show ?case
    using Cons.IH [OF registered_onclose [OF Cons.prems(1)] rest] c by simp
qed

lemma set_update_subset: "set (AList.update k v al) \<subseteq> insert (k, v) (set al)"
  by (induction al) auto

lemma registered_initialize:
  assumes r: "registered s" and t: "t < length (objects s)" and n: "sessionIdOf s t = None"
    and u: "u \<noteq> []"
  shows "registered (sdkCallback t (Initialize u) s)"
proof -
  let ?s' = "sdkCallback t (Initialize u) s"
  have tr: "transports ?s' = AList.update u t (transports s)"
    by (simp add: onsessioninitialized_def setSessionId_def)
  have ob: "objects ?s' = (objects s)[t := (objects s ! t)\<lparr>sessionId := Some u\<rparr>]"
    by (simp add: onsessioninitialized_def setSessionId_def)
  have st: "sessionIdOf ?s' t = Some u"
    using t unfolding sessionIdOf_def ob by simp
  have so: "sessionIdOf ?s' t' = sessionIdOf s t'" if "t' \<noteq> t" for t'
    using that unfolding sessionIdOf_def ob by simp
  have d: "distinct (map fst (transports ?s'))"
    using r unfolding tr by (simp add: registered_def distinct_update)
  have e: "k \<noteq> [] \<and> sessionIdOf ?s' t' = Some k" if m: "(k, t') \<in> set (transports ?s')" for k t'
  proof (cases "(k, t') = (u, t)")
    case True
    then show ?thesis using u st by simp
  next
    case False
    then have o: "(k, t') \<in> set (transports s)"
      using m set_update_subset [of u t "transports s"] unfolding tr by auto
    then have p: "k \<noteq> []" and q: "sessionIdOf s t' = Some k"
      using r by (auto simp: registered_def)
    have "t' \<noteq> t" using q n by auto
    then show ?thesis using p q so by simp
  qed
  show ?thesis
    unfolding registered_def using d e by auto
qed

lemma callbacks_initialize_once:
  assumes "registered s" and "t < length (objects s)" and "sessionIdOf s t = None"
    and "length (concat (map generatedBy cs)) \<le> 1" and "[] \<notin> set (concat (map generatedBy cs))"
  shows "registered (foldl (\<lambda>s' c. sdkCallback t c s') s cs)"
  using assms
proof (induction cs arbitrary: s)
  case Nil
  then show ?case by simp
next
  case (Cons c cs)
  show ?case
  proof (cases c)
    case (Initialize u)
    have u: "u \<noteq> []" and rest: "concat (map generatedBy cs) = []"
      using Cons.prems(4,5) Initialize by auto
    have "registered (sdkCallback t (Initialize u) s)"
      by (rule registered_initialize [OF Cons.prems(1,2,3) u])
    then show ?thesis
      using callbacks_without_initialize [OF _ rest] Initialize by simp
  next
    case Close
    have same: "onclose t s = s"
      using Cons.prems(3) by (simp add: onclose_def)
    show ?thesis
      using Cons.IH [OF Cons.prems(1,2,3)] Cons.prems(4,5) Close same by simp
  qed
qed

lemma registered_new_object:
  "registered s \<Longrightarrow> registered (s\<lparr>objects := objects s @ [x]\<rparr>)"
  by (auto simp: registered_def sessionIdOf_def nth_append split: if_splits)

lemma registered_postMcp:
  assumes r: "registered s" and c: "sdkContract (Post hdr isInit q connects run)"
  shows "registered (snd (postMcp parses decode hdr isInit q connects run s))"
proof (cases "parseConfigFromQuery decode q")
  case None
  then show ?thesis using r by (simp add: postMcp_def)
next
  case (Some config)
  show ?thesis
  proof (cases "present hdr")
    case True
    then have ni: "concat (map generatedBy (fst run)) = []"
      using c by (simp add: identifiersOf_def)
    show ?thesis
    proof (cases "tableLookup (transports s) hdr")
      case (Own t)
      then show ?thesis
        using Some True r callbacks_without_initialize [OF r ni, of t]
        by (simp add: postMcp_def snd_routePost handleRequest_def)
    next
      case Inherited
      then show ?thesis using Some True r by (simp add: postMcp_def)
    next
      case Missing
      then show ?thesis using Some True r by (simp add: postMcp_def)
    qed
  next
    case False
    then have once: "length (concat (map generatedBy (fst run))) \<le> 1"
      and ne: "[] \<notin> set (concat (map generatedBy (fst run)))"
      using c by (simp_all add: identifiersOf_def)
    show ?thesis
    proof (cases isInit)
      case i: False
      then show ?thesis using Some False r by (simp add: postMcp_def)
    next
      case i: True
      show ?thesis
      proof (cases "getMcpClient parses config s")
        case None
        then show ?thesis
          using Some False i registered_new_object [OF r]
          by (simp add: postMcp_def)
      next
        case g: (Some p)
        obtain cl s2 where p: "p = (cl, s2)" by (cases p)
        have f: "transports s2 = transports s" "objects s2 = objects s"
          using getMcpClient_frame(1,2) g p by blast+
        define s3 where "s3 = s2\<lparr>objects := objects s2 @ [\<lparr>sessionId = None, boundClient = cl\<rparr>]\<rparr>"
        have r2: "registered s2"
          using r registered_cong [OF f] by simp
        have r3: "registered s3"
          unfolding s3_def by (rule registered_new_object [OF r2])
        have t3: "length (objects s) < length (objects s3)"
          and n3: "sessionIdOf s3 (length (objects s)) = None"
          by (simp_all add: s3_def f sessionIdOf_def)
        have e: "snd (postMcp parses decode hdr isInit q connects run s) =
                   (if connects then snd (handleRequest (length (objects s)) run s3) else s3)"
          using Some False i g p by (simp add: postMcp_def Let_def s3_def snd_routePost)
        show ?thesis
          using e r3 callbacks_initialize_once [OF r3 t3 n3 once ne]
          by (simp add: handleRequest_def)
      qed
    qed
  qed
qed

lemma registered_routeBare:
  assumes r: "registered s" and ni: "identifiersOf run = []"
  shows "registered (snd (routeBare hdr run s))"
proof (cases "tableLookup (transports s) hdr")
  case (Own t)
  have "snd (routeBare hdr run s) = s \<or> snd (routeBare hdr run s) = snd (handleRequest t run s)"
    using Own by (cases "handleRequest t run s"; cases "fst (handleRequest t run s)")
                 (simp_all add: routeBare_def)
  then show ?thesis
    using r callbacks_without_initialize [OF r, of "fst run" t] ni
    by (auto simp: handleRequest_def identifiersOf_def)
next
  case Inherited
  then show ?thesis using r by (simp add: routeBare_def)
next
  case Missing
  then show ?thesis using r by (simp add: routeBare_def)
qed

lemma registered_step:
  "registered s \<Longrightarrow> sdkContract e \<Longrightarrow> registered (snd (step parses decode e s))"
proof (cases e)
  case (Post hdr isInit q connects run)
  assume "registered s" "sdkContract e"
  then show ?thesis using Post registered_postMcp by simp
next
  case (Get hdr run)
  assume "registered s" "sdkContract e"
  then show ?thesis using Get registered_routeBare by (simp add: getMcp_def)
next
  case (Delete hdr run)
  assume "registered s" "sdkContract e"
  then show ?thesis using Delete registered_routeBare by (simp add: deleteMcp_def)
qed

lemma registered_serve:
  "registered s \<Longrightarrow> list_all sdkContract es \<Longrightarrow> registered (serve parses decode es s)"
  by (induction es arbitrary: s) (simp_all add: registered_step)

lemma registered_reachable:
  "list_all sdkContract es \<Longrightarrow> registered (serve parses decode es (startHttpServer parses env))"
  by (rule registered_serve) (simp_all add: registered_def startHttpServer_def Let_def)


end
